theory Spec2Isabelle
  imports Complex_Main
begin

section \<open>Floating-point values\<close>

text \<open>
  The fields of \<open>geometry_msgs::Twist\<close> are C++ \<open>double\<close>s and \<open>std::stof\<close> returns a
  \<open>float\<close> that is widened to \<open>double\<close> without loss. Both are modelled by one type: a
  finite value is the real number it denotes, and the three special values of IEEE 754
  are separate constructors. The sign of a zero is not tracked (\<open>-0.0 == 0.0\<close> in C++).
\<close>

datatype cdouble = NaN | NegInf | Fin real | PosInf

text \<open>\<open>operator<\<close> on doubles: every comparison with a NaN is false.\<close>

fun fp_less :: "cdouble \<Rightarrow> cdouble \<Rightarrow> bool" where
  "fp_less NaN b = False"
| "fp_less a NaN = False"
| "fp_less NegInf NegInf = False"
| "fp_less NegInf b = True"
| "fp_less PosInf b = False"
| "fp_less (Fin a) NegInf = False"
| "fp_less (Fin a) (Fin b) = (a < b)"
| "fp_less (Fin a) PosInf = True"

text \<open>\<open>operator<=\<close> on doubles.\<close>

fun fp_le :: "cdouble \<Rightarrow> cdouble \<Rightarrow> bool" where
  "fp_le NaN b = False"
| "fp_le a NaN = False"
| "fp_le NegInf b = True"
| "fp_le PosInf PosInf = True"
| "fp_le PosInf b = False"
| "fp_le (Fin a) NegInf = False"
| "fp_le (Fin a) (Fin b) = (a \<le> b)"
| "fp_le (Fin a) PosInf = True"

text \<open>Unary minus and \<open>std::fabs\<close>.\<close>

fun fp_neg :: "cdouble \<Rightarrow> cdouble" where
  "fp_neg NaN = NaN"
| "fp_neg NegInf = PosInf"
| "fp_neg (Fin a) = Fin (- a)"
| "fp_neg PosInf = NegInf"

fun fp_abs :: "cdouble \<Rightarrow> cdouble" where
  "fp_abs NaN = NaN"
| "fp_abs NegInf = PosInf"
| "fp_abs (Fin a) = Fin \<bar>a\<bar>"
| "fp_abs PosInf = PosInf"

text \<open>
  \<open>std::max(a, b)\<close> is \<open>(a < b) ? b : a\<close> and \<open>std::min(a, b)\<close> is \<open>(b < a) ? b : a\<close>
  (C++ standard, [alg.min.max]); the first argument is returned when the comparison is false.
\<close>

definition std_max :: "cdouble \<Rightarrow> cdouble \<Rightarrow> cdouble" where
  "std_max a b = (if fp_less a b then b else a)"

definition std_min :: "cdouble \<Rightarrow> cdouble \<Rightarrow> cdouble" where
  "std_min a b = (if fp_less b a then b else a)"

section \<open>Constants of the node\<close>

definition DefaultVelocityCmd :: cdouble where
  "DefaultVelocityCmd = Fin 0"

definition DefaultTurnRateCmd :: cdouble where
  "DefaultTurnRateCmd = Fin 0"

definition LoopRate :: int where
  "LoopRate = 10"

definition MaxVelocityCommand :: cdouble where
  "MaxVelocityCommand = Fin 3"

definition MaxTurnRateCommand :: cdouble where
  "MaxTurnRateCommand = Fin 1"

section \<open>The library primitive \<open>std::stof\<close>\<close>

text \<open>
  \<open>std::stof(str)\<close> calls \<open>strtof(str.c_str(), &end)\<close>, throws \<open>std::invalid_argument\<close>
  when no conversion could be performed and \<open>std::out_of_range\<close> when \<open>strtof\<close> reports
  \<open>ERANGE\<close>; characters after the converted prefix are ignored (C++11 [string.conversions]).
  \<open>strtof\<close> is modelled after C99 7.20.1.3 in the "C" locale: leading white space, an
  optional sign, then a decimal number, a hexadecimal number, \<open>inf\<close> or \<open>nan\<close>.
\<close>

subsection \<open>Character classes\<close>

definition isspace :: "char \<Rightarrow> bool" where
  "isspace c = (c = CHR '' '' \<or> (9 \<le> (of_char c :: nat) \<and> (of_char c :: nat) \<le> 13))"

definition isdigit :: "char \<Rightarrow> bool" where
  "isdigit c = (48 \<le> (of_char c :: nat) \<and> (of_char c :: nat) \<le> 57)"

definition isxdigit :: "char \<Rightarrow> bool" where
  "isxdigit c = (isdigit c
     \<or> (97 \<le> (of_char c :: nat) \<and> (of_char c :: nat) \<le> 102)
     \<or> (65 \<le> (of_char c :: nat) \<and> (of_char c :: nat) \<le> 70))"

definition tolower :: "char \<Rightarrow> char" where
  "tolower c = (if 65 \<le> (of_char c :: nat) \<and> (of_char c :: nat) \<le> 90
                then char_of ((of_char c :: nat) + 32) else c)"

text \<open>The value of a decimal or hexadecimal digit.\<close>

definition digit_val :: "char \<Rightarrow> int" where
  "digit_val c = (if isdigit c then of_char c - 48
                  else if 97 \<le> (of_char c :: nat) then of_char c - 87
                  else of_char c - 55)"

definition digits_val :: "int \<Rightarrow> string \<Rightarrow> int" where
  "digits_val base ds = foldl (\<lambda>a c. base * a + digit_val c) 0 ds"

subsection \<open>Rounding an exact value to binary32\<close>

text \<open>The number of binary digits of a positive integer.\<close>

function bits :: "int \<Rightarrow> nat" where
  "bits n = (if n \<le> 0 then 0 else Suc (bits (n div 2)))"
  by pat_completeness auto
termination
  by (relation "measure nat") auto

declare bits.simps [simp del]

text \<open>\<open>ge_pow2 n d e\<close> holds when \<open>2 ^ e \<le> n / d\<close>.\<close>

definition ge_pow2 :: "int \<Rightarrow> int \<Rightarrow> int \<Rightarrow> bool" where
  "ge_pow2 n d e = (if 0 \<le> e then d * 2 ^ nat e \<le> n else d \<le> n * 2 ^ nat (- e))"

text \<open>The binary exponent \<open>\<lfloor>log\<^sub>2 (n / d)\<rfloor>\<close> of a positive fraction.\<close>

definition frac_exponent :: "int \<Rightarrow> int \<Rightarrow> int" where
  "frac_exponent n d =
     (let e0 = int (bits n) - int (bits d) in if ge_pow2 n d e0 then e0 else e0 - 1)"

text \<open>
  \<open>round_binary32 n d\<close> rounds the magnitude \<open>n / d\<close> to the nearest binary32 value, ties
  to even (24 significant bits, least normal exponent \<open>-126\<close>, subnormal spacing
  \<open>2\<^sup>-\<^sup>1\<^sup>4\<^sup>9\<close>), and says whether \<open>strtof\<close> sets \<open>errno\<close> to \<open>ERANGE\<close>. On overflow the
  result is \<open>HUGE_VALF\<close> with \<open>ERANGE\<close>, as C99 requires. Whether an underflow sets
  \<open>ERANGE\<close> is implementation-defined; the model follows glibc on x86-64, where ROS
  nodes usually run: \<open>ERANGE\<close> when the result is inexact and the value is tiny after rounding, that
  is below \<open>2\<^sup>-\<^sup>1\<^sup>2\<^sup>6 - 2\<^sup>-\<^sup>1\<^sup>5\<^sup>1\<close>.
\<close>

definition round_binary32 :: "int \<Rightarrow> int \<Rightarrow> cdouble \<times> bool" where
  "round_binary32 n d =
     (if n = 0 then (Fin 0, False)
      else
        let e = frac_exponent n d;
            q = max e (- 126) - 23;
            N = (if q < 0 then n * 2 ^ nat (- q) else n);
            D = (if q < 0 then d else d * 2 ^ nat q);
            m = N div D;
            r = N mod D;
            m' = (if D < 2 * r \<or> (2 * r = D \<and> odd m) then m + 1 else m);
            tiny = (n * 2 ^ 151 < d * (2 ^ 25 - 1))
        in if 0 \<le> q \<and> 2 ^ 128 \<le> m' * 2 ^ nat q then (PosInf, True)
           else (Fin (if q < 0 then of_int m' / 2 ^ nat (- q) else of_int m' * 2 ^ nat q),
                 tiny \<and> r \<noteq> 0))"

subsection \<open>Scanning the subject sequence\<close>

fun opt_sign :: "string \<Rightarrow> bool \<times> string" where
  "opt_sign [] = (False, [])"
| "opt_sign (c # s) =
     (if c = CHR ''-'' then (True, s) else if c = CHR ''+'' then (False, s) else (False, c # s))"

text \<open>
  The optional exponent part: the marker (\<open>e\<close> or \<open>p\<close>, either case), an optional sign and a
  nonempty sequence of decimal digits. Without digits there is no exponent part.
\<close>

definition exponent_part :: "char \<Rightarrow> string \<Rightarrow> int" where
  "exponent_part mk s =
     (case s of
        [] \<Rightarrow> 0
      | c # r \<Rightarrow>
          if tolower c = mk then
            (let (neg, r') = opt_sign r; ds = takeWhile isdigit r'
             in if ds = [] then 0
                else if neg then - digits_val 10 ds else digits_val 10 ds)
          else 0)"

text \<open>\<open>scale b m k\<close> is the exact value \<open>m * b ^ k\<close> as a fraction of integers.\<close>

definition scale :: "int \<Rightarrow> int \<Rightarrow> int \<Rightarrow> int \<times> int" where
  "scale b m k = (if 0 \<le> k then (m * b ^ nat k, 1) else (m, b ^ nat (- k)))"

text \<open>
  A digit sequence with an optional radix character and an optional exponent part. At
  least one digit is required in the integer or the fraction part.
\<close>

definition scan_number :: "(char \<Rightarrow> bool) \<Rightarrow> int \<Rightarrow> char \<Rightarrow> int \<Rightarrow> int \<Rightarrow> string
    \<Rightarrow> (int \<times> int) option" where
  "scan_number isdig base mk ebase fbits s =
     (let ip = takeWhile isdig s;
          r1 = dropWhile isdig s;
          fp = (case r1 of [] \<Rightarrow> [] | c # r \<Rightarrow> if c = CHR ''.'' then takeWhile isdig r else []);
          r2 = (case r1 of [] \<Rightarrow> [] | c # r \<Rightarrow> if c = CHR ''.'' then dropWhile isdig r else r1)
      in if ip = [] \<and> fp = [] then None
         else Some (scale ebase (digits_val base (ip @ fp))
                      (exponent_part mk r2 - fbits * int (length fp))))"

definition scan_decimal :: "string \<Rightarrow> (int \<times> int) option" where
  "scan_decimal s = scan_number isdigit 10 (CHR ''e'') 10 1 s"

definition scan_hex :: "string \<Rightarrow> (int \<times> int) option" where
  "scan_hex s =
     (if map tolower (take 2 s) = ''0x''
      then scan_number isxdigit 16 (CHR ''p'') 2 4 (drop 2 s) else None)"

datatype strtof_result = NoConversion | Converted cdouble bool

definition strtof :: "string \<Rightarrow> strtof_result" where
  "strtof str =
     (let (neg, s) = opt_sign (dropWhile isspace str);
          sgn = (\<lambda>v. if neg then fp_neg v else v)
      in if map tolower (take 3 s) = ''inf'' then Converted (sgn PosInf) False
         else if map tolower (take 3 s) = ''nan'' then Converted NaN False
         else
           (case (case scan_hex s of Some f \<Rightarrow> Some f | None \<Rightarrow> scan_decimal s) of
              None \<Rightarrow> NoConversion
            | Some (n, d) \<Rightarrow> (let (v, erange) = round_binary32 n d in Converted (sgn v) erange)))"

datatype cxx_exception = invalid_argument | out_of_range

definition stof :: "string \<Rightarrow> cxx_exception + cdouble" where
  "stof str =
     (case strtof str of
        NoConversion \<Rightarrow> Inl invalid_argument
      | Converted v erange \<Rightarrow> if erange then Inl out_of_range else Inr v)"

section \<open>The velocity command\<close>

text \<open>
  \<open>geometry_msgs::Twist\<close> has two vectors \<open>linear\<close> and \<open>angular\<close> of three doubles each;
  the field \<open>msg.linear.x\<close> is \<open>linear_x msg\<close>. A freshly constructed message is all zero.
\<close>

record Twist =
  linear_x :: cdouble
  linear_y :: cdouble
  linear_z :: cdouble
  angular_x :: cdouble
  angular_y :: cdouble
  angular_z :: cdouble

definition Twist_init :: Twist where
  "Twist_init = \<lparr> linear_x = Fin 0, linear_y = Fin 0, linear_z = Fin 0,
                  angular_x = Fin 0, angular_y = Fin 0, angular_z = Fin 0 \<rparr>"

text \<open>
  What can go wrong in C++: an exception is thrown, which \<open>catch(...)\<close> handles, or the
  behaviour is undefined (a vector subscript out of range), which nothing handles.
\<close>

datatype failure = Throw cxx_exception | UndefinedBehaviour

definition subscript :: "'a list \<Rightarrow> nat \<Rightarrow> failure + 'a" where
  "subscript v i = (if i < length v then Inr (v ! i) else Inl UndefinedBehaviour)"

text \<open>\<open>try { body } catch(...) { handler }\<close>, the handler running on the state at the throw.\<close>

definition try_catch_all :: "failure + 'a \<Rightarrow> 'a \<Rightarrow> failure + 'a" where
  "try_catch_all body handler =
     (case body of Inl (Throw e) \<Rightarrow> Inr handler | Inl UndefinedBehaviour \<Rightarrow> Inl UndefinedBehaviour
      | Inr s \<Rightarrow> Inr s)"

text \<open>The two \<open>try\<close> blocks of \<open>getCommandMsg\<close>; \<open>stof\<close> throws before \<open>msg\<close> is assigned.\<close>

definition try_linear :: "string list \<Rightarrow> Twist \<Rightarrow> failure + Twist" where
  "try_linear args msg =
     (case subscript args 1 of
        Inl f \<Rightarrow> Inl f
      | Inr s \<Rightarrow>
          (case stof s of
             Inl e \<Rightarrow> Inl (Throw e)
           | Inr v \<Rightarrow>
               (let msg = msg\<lparr>linear_x := v\<rparr>;
                    msg = msg\<lparr>linear_x := std_max (linear_x msg) (fp_neg MaxVelocityCommand)\<rparr>;
                    msg = msg\<lparr>linear_x := std_min (linear_x msg) MaxVelocityCommand\<rparr>
                in Inr msg)))"

definition try_angular :: "string list \<Rightarrow> Twist \<Rightarrow> failure + Twist" where
  "try_angular args msg =
     (case subscript args 2 of
        Inl f \<Rightarrow> Inl f
      | Inr s \<Rightarrow>
          (case stof s of
             Inl e \<Rightarrow> Inl (Throw e)
           | Inr v \<Rightarrow>
               (let msg = msg\<lparr>angular_z := v\<rparr>;
                    msg = msg\<lparr>angular_z := std_max (angular_z msg) (fp_neg MaxTurnRateCommand)\<rparr>;
                    msg = msg\<lparr>angular_z := std_min (angular_z msg) MaxTurnRateCommand\<rparr>
                in Inr msg)))"

definition getCommandMsg :: "string list \<Rightarrow> failure + Twist" where
  "getCommandMsg args =
     (let msg = Twist_init;
          msg = msg\<lparr>linear_x := DefaultVelocityCmd\<rparr>;
          msg = msg\<lparr>angular_z := DefaultTurnRateCmd\<rparr>
      in case (if 1 < length args
               then try_catch_all (try_linear args msg) (msg\<lparr>linear_x := DefaultVelocityCmd\<rparr>)
               else Inr msg) of
           Inl f \<Rightarrow> Inl f
         | Inr msg \<Rightarrow>
             (if 2 < length args
              then try_catch_all (try_angular args msg) (msg\<lparr>angular_z := DefaultTurnRateCmd\<rparr>)
              else Inr msg))"

section \<open>The status handler and the publish loop\<close>

text \<open>
  \<open>j5_msgs::j5StatusMsg\<close> as the file header documents it (the header field \<open>hdr\<close> is
  never read and is left to the record's extension).
\<close>

record j5StatusMsg =
  externalControl :: bool
  contactors :: bool
  fault :: bool
  voltage :: cdouble

text \<open>
  What the node does to the outside is written to two places: the log (\<open>ROS_INFO\<close>
  appends one record, the format string with its arguments) and the topic \<open>/j5_cmd\<close>
  (\<open>publish\<close> appends one message).
\<close>

datatype log_arg = ArgInt int | ArgDouble cdouble

type_synonym log_record = "string \<times> log_arg list"

record node_io =
  rosout :: "log_record list"
  j5_cmd :: "Twist list"

definition ROS_INFO :: "string \<Rightarrow> log_arg list \<Rightarrow> node_io \<Rightarrow> node_io" where
  "ROS_INFO fmt as io = io\<lparr>rosout := rosout io @ [(fmt, as)]\<rparr>"

definition publish :: "Twist \<Rightarrow> node_io \<Rightarrow> node_io" where
  "publish msg io = io\<lparr>j5_cmd := j5_cmd io @ [msg]\<rparr>"

definition statusMsgHandler :: "j5StatusMsg \<Rightarrow> node_io \<Rightarrow> node_io" where
  "statusMsgHandler msg io =
     ROS_INFO ''RCV Status: EXT_CONTROL: %i FAULT: %i CONTACTORS: %i VOLTAGE: %.1f''
       [ArgInt (of_bool (externalControl msg)), ArgInt (of_bool (fault msg)),
        ArgInt (of_bool (contactors msg)), ArgDouble (voltage msg)] io"

text \<open>
  \<open>main\<close> after \<open>spinner.start()\<close>: the loop tests \<open>ros::ok()\<close>, logs, publishes and
  sleeps; the spinner's threads call \<open>statusMsgHandler\<close> at any moment until
  \<open>spinner.stop()\<close>. The threads are interleaved one statement at a time.
\<close>

datatype pc = Check | Log | Publish | Sleep | Stopped

record main_state =
  pc :: pc
  cmdMsg :: Twist
  io :: node_io

datatype action = Ok bool | Info | Pub | Wait | Deliver j5StatusMsg

inductive step :: "main_state \<Rightarrow> action \<Rightarrow> main_state \<Rightarrow> bool" where
  ok_true: "pc c = Check \<Longrightarrow> step c (Ok True) (c\<lparr>pc := Log\<rparr>)"
| ok_false: "pc c = Check \<Longrightarrow> step c (Ok False) (c\<lparr>pc := Stopped\<rparr>)"
| info: "pc c = Log \<Longrightarrow>
    step c Info (c\<lparr>pc := Publish,
      io := ROS_INFO ''Sending Velocty Command: {%f, %f}''
              [ArgDouble (linear_x (cmdMsg c)), ArgDouble (angular_z (cmdMsg c))] (io c)\<rparr>)"
| pub: "pc c = Publish \<Longrightarrow> step c Pub (c\<lparr>pc := Sleep, io := publish (cmdMsg c) (io c)\<rparr>)"
| wait: "pc c = Sleep \<Longrightarrow> step c Wait (c\<lparr>pc := Check\<rparr>)"
| deliver: "pc c \<noteq> Stopped \<Longrightarrow> step c (Deliver msg) (c\<lparr>io := statusMsgHandler msg (io c)\<rparr>)"

inductive run :: "main_state \<Rightarrow> action list \<Rightarrow> main_state \<Rightarrow> bool" where
  run_nil: "run c [] c"
| run_cons: "step c a c' \<Longrightarrow> run c' as c'' \<Longrightarrow> run c (a # as) c''"

text \<open>The state in which \<open>main\<close> enters the loop, if \<open>getCommandMsg\<close> returns.\<close>

definition main_start :: "string list \<Rightarrow> failure + main_state" where
  "main_start args =
     (case getCommandMsg args of
        Inl f \<Rightarrow> Inl f
      | Inr msg \<Rightarrow> Inr \<lparr> pc = Check, cmdMsg = msg, io = \<lparr> rosout = [], j5_cmd = [] \<rparr> \<rparr>)"

section \<open>Words of the specification\<close>

text \<open>
  The specification's \<open>clamp\<close>: bound a value to the closed interval from \<open>lo\<close> to \<open>hi\<close>.
\<close>

definition spec_clamp :: "cdouble \<Rightarrow> cdouble \<Rightarrow> cdouble \<Rightarrow> cdouble" where
  "spec_clamp v lo hi = (if fp_less v lo then lo else if fp_less hi v then hi else v)"

text \<open>The argument at an index, absent when the list is too short.\<close>

definition arg_at :: "string list \<Rightarrow> nat \<Rightarrow> string option" where
  "arg_at args i = (if i < length args then Some (args ! i) else None)"

text \<open>
  A non-numeric string, read as a string in which no decimal digit occurs.
\<close>

definition non_numeric :: "string \<Rightarrow> bool" where
  "non_numeric s = list_all (\<lambda>c. \<not> isdigit c) s"

text \<open>
  After white space and an optional sign the string starts with \<open>inf\<close> or \<open>nan\<close>, in
  either letter case.
\<close>

definition names_inf_or_nan :: "string \<Rightarrow> bool" where
  "names_inf_or_nan s =
     (let (neg, r) = opt_sign (dropWhile isspace s)
      in map tolower (take 3 r) = ''inf'' \<or> map tolower (take 3 r) = ''nan'')"








section \<open>Facts about the model\<close>

subsection \<open>What \<open>stof\<close> returns\<close>

text \<open>
  A string with no subject sequence is rejected; the other lemmas run the model on
  strings whose binary32 value is known.
\<close>

lemma stof_empty: "stof [] = Inl invalid_argument"
  by (simp add: stof_def strtof_def scan_hex_def scan_decimal_def scan_number_def)

lemma stof_no_subject:
  assumes "\<not> isspace c" "c \<noteq> CHR ''-''" "c \<noteq> CHR ''+''" "\<not> isdigit c" "c \<noteq> CHR ''.''"
    and "tolower c \<noteq> CHR ''i''" "tolower c \<noteq> CHR ''n''"
  shows "stof (c # s) = Inl invalid_argument"
proof -
  have zero: "tolower c \<noteq> CHR ''0''"
  proof
    assume "tolower c = CHR ''0''"
    then have "(of_char (tolower c) :: nat) = 48"
      by simp
    with assms(4) show False
      by (simp add: tolower_def isdigit_def split: if_splits)
  qed
  have "scan_hex (c # s) = None"
    by (simp add: scan_hex_def zero)
  moreover have "scan_decimal (c # s) = None"
    using assms by (simp add: scan_decimal_def scan_number_def)
  ultimately show ?thesis
    using assms by (simp add: stof_def strtof_def)
qed

lemma stof_third: "stof ''0.3'' = Inr (Fin (5033165 / 16777216))"
  by code_simp

lemma stof_leading_space_sign_exponent: "stof ''  -12.5E-1xyz'' = Inr (Fin (- (5 / 4)))"
  by code_simp

lemma stof_hex: "stof ''0x1.8p1'' = Inr (Fin 3)"
  by code_simp

lemma stof_inf: "stof ''-Infinity'' = Inr NegInf"
  by code_simp

lemma stof_FLT_MAX: "stof ''3.4028235e38'' = Inr (Fin 340282346638528859811704183484516925440)"
  by code_simp

lemma stof_overflow: "stof ''3.4028236e38'' = Inl out_of_range"
  by code_simp

lemma stof_underflow: "stof ''1e-46'' = Inl out_of_range"
  by code_simp

lemma stof_least_normal: "stof ''0x1p-126'' = Inr (Fin (1 / 2 ^ 126))"
  by code_simp

lemma stof_exact_subnormal: "stof ''0x1p-149'' = Inr (Fin (1 / 2 ^ 149))"
  by code_simp


lemma tolower_dot: "tolower (CHR ''.'') = CHR ''.''" "\<not> isdigit (CHR ''.'')"
  by (simp_all add: tolower_def isdigit_def)

lemma opt_sign_subset: "set (snd (opt_sign s)) \<subseteq> set s"
  by (cases s) auto

lemma tolower_zero: "tolower c = CHR ''0'' \<Longrightarrow> isdigit c"
proof -
  assume "tolower c = CHR ''0''"
  then have "(of_char (tolower c) :: nat) = 48"
    by simp
  then show "isdigit c"
    by (simp add: tolower_def isdigit_def split: if_splits)
qed

lemma scan_without_digits:
  assumes "\<forall>c \<in> set r. \<not> isdigit c"
  shows "scan_hex r = None" and "scan_decimal r = None"
proof -
  show "scan_hex r = None"
  proof (cases r)
    case Nil
    then show ?thesis by (simp add: scan_hex_def)
  next
    case (Cons c r')
    with assms have "tolower c \<noteq> CHR ''0''"
      using tolower_zero by auto
    with Cons show ?thesis by (simp add: scan_hex_def)
  qed
  have none: "takeWhile isdigit x = []" if "set x \<subseteq> set r" for x
    using that assms by (cases x) auto
  have "takeWhile isdigit r = []" "dropWhile isdigit r = r"
    using assms by (cases r; simp)+
  moreover have "takeWhile isdigit (tl r) = []"
    by (rule none) (cases r; auto)
  ultimately show "scan_decimal r = None"
    by (cases r) (simp_all add: scan_decimal_def scan_number_def)
qed

lemma stof_non_numeric:
  assumes "non_numeric s"
  shows "stof s = Inl invalid_argument \<longleftrightarrow> \<not> names_inf_or_nan s"
proof -
  obtain neg r where r: "opt_sign (dropWhile isspace s) = (neg, r)"
    by (cases "opt_sign (dropWhile isspace s)")
  have "set r \<subseteq> set (dropWhile isspace s)"
    using opt_sign_subset [of "dropWhile isspace s"] r by simp
  also have "\<dots> \<subseteq> set s"
    by (auto dest: set_dropWhileD)
  finally have "\<forall>c \<in> set r. \<not> isdigit c"
    using assms by (auto simp: non_numeric_def list_all_iff)
  from scan_without_digits [OF this] show ?thesis
    by (auto simp: stof_def strtof_def names_inf_or_nan_def r)
qed


























subsection \<open>What \<open>getCommandMsg\<close> returns\<close>

lemma try_linear_caught:
  "1 < length args \<Longrightarrow>
   try_catch_all (try_linear args msg) h =
     Inr (case stof (args ! 1) of
            Inl e \<Rightarrow> h
          | Inr v \<Rightarrow>
              msg\<lparr>linear_x := std_min (std_max v (fp_neg MaxVelocityCommand)) MaxVelocityCommand\<rparr>)"
  by (simp add: try_catch_all_def try_linear_def subscript_def split: sum.splits)

lemma try_angular_caught:
  "2 < length args \<Longrightarrow>
   try_catch_all (try_angular args msg) h =
     Inr (case stof (args ! 2) of
            Inl e \<Rightarrow> h
          | Inr v \<Rightarrow>
              msg\<lparr>angular_z := std_min (std_max v (fp_neg MaxTurnRateCommand)) MaxTurnRateCommand\<rparr>)"
  by (simp add: try_catch_all_def try_angular_def subscript_def split: sum.splits)

lemma getCommandMsg_returns:
  "getCommandMsg args =
     Inr (Twist_init
       \<lparr>linear_x :=
          (if 1 < length args
           then (case stof (args ! 1) of
                   Inl e \<Rightarrow> DefaultVelocityCmd
                 | Inr v \<Rightarrow> std_min (std_max v (fp_neg MaxVelocityCommand)) MaxVelocityCommand)
           else DefaultVelocityCmd),
        angular_z :=
          (if 2 < length args
           then (case stof (args ! 2) of
                   Inl e \<Rightarrow> DefaultTurnRateCmd
                 | Inr v \<Rightarrow> std_min (std_max v (fp_neg MaxTurnRateCommand)) MaxTurnRateCommand)
           else DefaultTurnRateCmd)\<rparr>)"
    (is "_ = Inr (Twist_init\<lparr>linear_x := ?lin, angular_z := ?ang\<rparr>)")
proof -
  let ?m0 = "Twist_init\<lparr>linear_x := DefaultVelocityCmd, angular_z := DefaultTurnRateCmd\<rparr>"
  let ?m1 = "?m0\<lparr>linear_x := ?lin\<rparr>"
  have first: "(if 1 < length args
          then try_catch_all (try_linear args ?m0) (?m0\<lparr>linear_x := DefaultVelocityCmd\<rparr>)
          else Inr ?m0) = Inr ?m1"
    by (cases "1 < length args")
       (simp_all only: try_linear_caught if_True if_False, simp_all split: sum.splits)
  have second: "(if 2 < length args
          then try_catch_all (try_angular args ?m1) (?m1\<lparr>angular_z := DefaultTurnRateCmd\<rparr>)
          else Inr ?m1) = Inr (?m1\<lparr>angular_z := ?ang\<rparr>)"
    by (cases "2 < length args")
       (simp_all only: try_angular_caught if_True if_False, simp_all split: sum.splits)
  have "getCommandMsg args = Inr (?m1\<lparr>angular_z := ?ang\<rparr>)"
    unfolding getCommandMsg_def Let_def first sum.case second ..
  then show ?thesis by simp
qed

lemma clamp_refined:
  "std_min (std_max v lo) hi = spec_clamp v lo hi" if "fp_less lo hi"
  using that by (cases v; cases lo; cases hi) (auto simp: std_min_def std_max_def spec_clamp_def)

lemma clamp_NaN_or_bounded:
  "std_min (std_max v (fp_neg (Fin b))) (Fin b) = NaN
   \<or> fp_le (fp_abs (std_min (std_max v (fp_neg (Fin b))) (Fin b))) (Fin b)" if "0 \<le> b"
  using that by (cases v) (auto simp: std_min_def std_max_def)

lemma getCommandMsg_bounded_unless_NaN:
  assumes "getCommandMsg args = Inr msg"
  shows "linear_x msg = NaN \<or> fp_le (fp_abs (linear_x msg)) MaxVelocityCommand"
    and "angular_z msg = NaN \<or> fp_le (fp_abs (angular_z msg)) MaxTurnRateCommand"
proof -
  have three: "(0::real) \<le> 3" and one: "(0::real) \<le> 1"
    by simp_all
  from assms have msg: "msg = Twist_init
       \<lparr>linear_x :=
          (if 1 < length args
           then (case stof (args ! 1) of
                   Inl e \<Rightarrow> DefaultVelocityCmd
                 | Inr v \<Rightarrow> std_min (std_max v (fp_neg MaxVelocityCommand)) MaxVelocityCommand)
           else DefaultVelocityCmd),
        angular_z :=
          (if 2 < length args
           then (case stof (args ! 2) of
                   Inl e \<Rightarrow> DefaultTurnRateCmd
                 | Inr v \<Rightarrow> std_min (std_max v (fp_neg MaxTurnRateCommand)) MaxTurnRateCommand)
           else DefaultTurnRateCmd)\<rparr>"
    unfolding getCommandMsg_returns by simp
  show "linear_x msg = NaN \<or> fp_le (fp_abs (linear_x msg)) MaxVelocityCommand"
    unfolding msg using clamp_NaN_or_bounded [OF three]
    by (simp add: MaxVelocityCommand_def DefaultVelocityCmd_def split: sum.splits)
  show "angular_z msg = NaN \<or> fp_le (fp_abs (angular_z msg)) MaxTurnRateCommand"
    unfolding msg using clamp_NaN_or_bounded [OF one]
    by (simp add: MaxTurnRateCommand_def DefaultTurnRateCmd_def split: sum.splits)
qed

lemma clamp_NaN_iff:
  "std_min (std_max v (Fin lo)) (Fin hi) = NaN \<longleftrightarrow> v = NaN"
  by (cases v) (auto simp: std_min_def std_max_def)

lemma getCommandMsg_NaN_iff:
  assumes "getCommandMsg args = Inr msg"
  shows "linear_x msg = NaN \<longleftrightarrow> 1 < length args \<and> stof (args ! 1) = Inr NaN"
    and "angular_z msg = NaN \<longleftrightarrow> 2 < length args \<and> stof (args ! 2) = Inr NaN"
proof -
  have lin: "linear_x msg =
      (if 1 < length args
       then (case stof (args ! 1) of
               Inl e \<Rightarrow> Fin 0
             | Inr v \<Rightarrow> std_min (std_max v (Fin (- 3))) (Fin 3))
       else Fin 0)"
    and ang: "angular_z msg =
      (if 2 < length args
       then (case stof (args ! 2) of
               Inl e \<Rightarrow> Fin 0
             | Inr v \<Rightarrow> std_min (std_max v (Fin (- 1))) (Fin 1))
       else Fin 0)"
    using assms unfolding getCommandMsg_returns
    by (auto simp: MaxVelocityCommand_def MaxTurnRateCommand_def
        DefaultVelocityCmd_def DefaultTurnRateCmd_def split: sum.splits)
  show "linear_x msg = NaN \<longleftrightarrow> 1 < length args \<and> stof (args ! 1) = Inr NaN"
    unfolding lin by (simp add: clamp_NaN_iff split: sum.splits)
  show "angular_z msg = NaN \<longleftrightarrow> 2 < length args \<and> stof (args ! 2) = Inr NaN"
    unfolding ang by (simp add: clamp_NaN_iff split: sum.splits)
qed

section \<open>Properties of the command builder\<close>

text \<open>
  C1. When the list has at least two elements and \<open>stof\<close> converts the one at index 1 to
  \<open>v\<close>, \<open>getCommandMsg\<close> returns a command whose \<open>linear.x\<close> is \<open>v\<close> clamped to
  \<open>[-3, 3]\<close>; when index 2 is present and converts to \<open>w\<close>, \<open>angular.z\<close> is \<open>w\<close>
  clamped to \<open>[-1, 1]\<close>.
\<close>

theorem getCommandMsg_clamps_parsed:
  "(1 < length args \<and> stof (args ! 1) = Inr v \<longrightarrow>
      (\<exists>msg. getCommandMsg args = Inr msg \<and> linear_x msg = spec_clamp v (Fin (- 3)) (Fin 3)))
   \<and> (2 < length args \<and> stof (args ! 2) = Inr w \<longrightarrow>
      (\<exists>msg. getCommandMsg args = Inr msg \<and> angular_z msg = spec_clamp w (Fin (- 1)) (Fin 1)))"
proof -
  have lin: "std_min (std_max v (Fin (- 3))) (Fin 3) = spec_clamp v (Fin (- 3)) (Fin 3)"
    by (rule clamp_refined) simp
  have ang: "std_min (std_max w (Fin (- 1))) (Fin 1) = spec_clamp w (Fin (- 1)) (Fin 1)"
    by (rule clamp_refined) simp
  show ?thesis
    unfolding getCommandMsg_returns
    by (simp add: MaxVelocityCommand_def MaxTurnRateCommand_def lin ang)
qed

theorem getCommandMsg_clamps_parsed_witness:
  "1 < length [''prog'', ''10.0'', ''0.3''] \<and> stof ([''prog'', ''10.0'', ''0.3''] ! 1) = Inr (Fin 10)
   \<and> 2 < length [''prog'', ''10.0'', ''0.3'']
   \<and> stof ([''prog'', ''10.0'', ''0.3''] ! 2) = Inr (Fin (5033165 / 16777216))
   \<and> (\<exists>msg. getCommandMsg [''prog'', ''10.0'', ''0.3''] = Inr msg \<and> linear_x msg = Fin 3)
   \<and> (\<exists>msg. getCommandMsg [''prog'', ''10.0'', ''0.3''] = Inr msg
         \<and> angular_z msg = Fin (5033165 / 16777216))"
proof -
  have v: "stof ''10.0'' = Inr (Fin 10)"
    by code_simp
  have w: "stof ''0.3'' = Inr (Fin (5033165 / 16777216))"
    by code_simp
  show ?thesis
    using getCommandMsg_clamps_parsed
      [of "[''prog'', ''10.0'', ''0.3'']" "Fin 10" "Fin (5033165 / 16777216)"]
    by (simp add: v w spec_clamp_def)
qed

text \<open>
  C2. The command returned for the arguments \<open>j5_interface nan\<close> has \<open>linear.x = NaN\<close>, which
  is not within the limit \<open>3.0\<close>; likewise \<open>angular.z\<close> for \<open>j5_interface 0 nan\<close>.
\<close>

theorem getCommandMsg_NaN_passes_limits:
  "(\<exists>msg. getCommandMsg [''j5_interface'', ''nan''] = Inr msg \<and> linear_x msg = NaN
      \<and> \<not> fp_le (fp_abs (linear_x msg)) MaxVelocityCommand)
   \<and> (\<exists>msg. getCommandMsg [''j5_interface'', ''0'', ''nan''] = Inr msg \<and> angular_z msg = NaN
      \<and> \<not> fp_le (fp_abs (angular_z msg)) MaxTurnRateCommand)"
proof -
  have nan: "stof ''nan'' = Inr NaN"
    by code_simp
  show ?thesis
    unfolding getCommandMsg_returns
    by (simp add: nan std_min_def std_max_def MaxVelocityCommand_def MaxTurnRateCommand_def)
qed

text \<open>
  C3. When \<open>stof\<close> throws on the element at index 1 (index 2), \<open>getCommandMsg\<close> still
  returns, with \<open>linear.x\<close> (\<open>angular.z\<close>) at the default \<open>0.0\<close>. A string without a
  digit, the empty one included, makes \<open>stof\<close> throw unless, after white space and a sign,
  it starts with \<open>inf\<close> or \<open>nan\<close>; so does a number too large for a \<open>float\<close>.
\<close>

theorem getCommandMsg_absorbs_parse_failure:
  "(1 < length args
      \<and> (stof (args ! 1) = Inl e
           \<or> non_numeric (args ! 1) \<and> \<not> names_inf_or_nan (args ! 1)) \<longrightarrow>
      (\<exists>msg. getCommandMsg args = Inr msg \<and> linear_x msg = Fin 0))
   \<and> (2 < length args
      \<and> (stof (args ! 2) = Inl e'
           \<or> non_numeric (args ! 2) \<and> \<not> names_inf_or_nan (args ! 2)) \<longrightarrow>
      (\<exists>msg. getCommandMsg args = Inr msg \<and> angular_z msg = Fin 0))"
proof -
  have "\<exists>x. stof s = Inl x" if "stof s = Inl y \<or> non_numeric s \<and> \<not> names_inf_or_nan s"
    for s y
    using that stof_non_numeric [of s] by auto
  then show ?thesis
    unfolding getCommandMsg_returns
    by (fastforce simp: DefaultVelocityCmd_def DefaultTurnRateCmd_def)
qed

theorem getCommandMsg_absorbs_parse_failure_witness:
  "1 < length [''prog'', ''abc'', ''1e40'']
   \<and> non_numeric ([''prog'', ''abc'', ''1e40''] ! 1)
   \<and> \<not> names_inf_or_nan ([''prog'', ''abc'', ''1e40''] ! 1)
   \<and> 2 < length [''prog'', ''abc'', ''1e40'']
   \<and> stof ([''prog'', ''abc'', ''1e40''] ! 2) = Inl out_of_range
   \<and> (\<exists>msg. getCommandMsg [''prog'', ''abc'', ''1e40''] = Inr msg \<and> linear_x msg = Fin 0)
   \<and> (\<exists>msg. getCommandMsg [''prog'', ''abc'', ''1e40''] = Inr msg \<and> angular_z msg = Fin 0)
   \<and> 1 < length [''prog'', []]
   \<and> non_numeric ([''prog'', []] ! 1) \<and> \<not> names_inf_or_nan ([''prog'', []] ! 1)
   \<and> (\<exists>msg. getCommandMsg [''prog'', []] = Inr msg \<and> linear_x msg = Fin 0)"
proof -
  have abc: "non_numeric ''abc''" "\<not> names_inf_or_nan ''abc''"
    by (simp_all add: non_numeric_def names_inf_or_nan_def isdigit_def isspace_def tolower_def)
  have empty: "non_numeric []" "\<not> names_inf_or_nan []"
    by (simp_all add: non_numeric_def names_inf_or_nan_def)
  have big: "stof ''1e40'' = Inl out_of_range"
    by code_simp
  show ?thesis
    using getCommandMsg_absorbs_parse_failure
      [of "[''prog'', ''abc'', ''1e40'']" invalid_argument out_of_range]
      getCommandMsg_absorbs_parse_failure [of "[''prog'', []]"]
    by (simp add: abc empty big)
qed

text \<open>
  A string without a digit does not always give the default: \<open>stof\<close> reads the word
  \<open>information\<close> as infinity, which the clamp turns into \<open>3.0\<close>.
\<close>

theorem getCommandMsg_information_counterexample:
  "1 < length [''j5_interface'', ''information'']
   \<and> non_numeric ([''j5_interface'', ''information''] ! 1)
   \<and> getCommandMsg [''j5_interface'', ''information''] = Inr (Twist_init\<lparr>linear_x := Fin 3\<rparr>)
   \<and> linear_x (Twist_init\<lparr>linear_x := Fin 3\<rparr>) \<noteq> Fin 0"
proof -
  have word: "non_numeric ''information''"
    by (simp add: non_numeric_def isdigit_def)
  have inf: "stof ''information'' = Inr PosInf"
    by code_simp
  have "getCommandMsg [''j5_interface'', ''information''] = Inr (Twist_init\<lparr>linear_x := Fin 3\<rparr>)"
    unfolding getCommandMsg_returns
    by (simp add: inf std_min_def std_max_def MaxVelocityCommand_def DefaultTurnRateCmd_def
        Twist_init_def)
  with word show ?thesis
    by simp
qed

text \<open>
  C4. With fewer than two arguments both \<open>linear.x\<close> and \<open>angular.z\<close> are \<open>0.0\<close>; with
  exactly two, \<open>angular.z\<close> is \<open>0.0\<close> and \<open>linear.x\<close> comes from the argument at index 1
  alone.
\<close>

theorem getCommandMsg_short_argument_lists:
  "(length args < 2 \<longrightarrow>
      (\<exists>msg. getCommandMsg args = Inr msg \<and> linear_x msg = Fin 0 \<and> angular_z msg = Fin 0))
   \<and> (length args = 2 \<longrightarrow>
      (\<exists>msg. getCommandMsg args = Inr msg \<and> angular_z msg = Fin 0
         \<and> linear_x msg =
             (case stof (args ! 1) of
                Inl e \<Rightarrow> Fin 0
              | Inr v \<Rightarrow> std_min (std_max v (Fin (- 3))) (Fin 3))))"
  unfolding getCommandMsg_returns
  by (simp add: DefaultVelocityCmd_def DefaultTurnRateCmd_def MaxVelocityCommand_def
      split: sum.splits)

theorem getCommandMsg_short_argument_lists_witness:
  "length [''prog''] < 2
   \<and> (\<exists>msg. getCommandMsg [''prog''] = Inr msg \<and> linear_x msg = Fin 0 \<and> angular_z msg = Fin 0)
   \<and> length [''prog'', ''2.5''] = 2
   \<and> (\<exists>msg. getCommandMsg [''prog'', ''2.5''] = Inr msg \<and> angular_z msg = Fin 0
         \<and> linear_x msg = Fin (5 / 2))"
proof -
  have v: "stof ''2.5'' = Inr (Fin (5 / 2))"
    by code_simp
  show ?thesis
    using getCommandMsg_short_argument_lists [of "[''prog'']"]
      getCommandMsg_short_argument_lists [of "[''prog'', ''2.5'']"]
    by (simp add: v std_min_def std_max_def)
qed

text \<open>
  C5. \<open>getCommandMsg\<close> returns a command for every argument list: no exception leaves it
  and no vector subscript is out of range.
\<close>

theorem getCommandMsg_total:
  "\<exists>msg. getCommandMsg args = Inr msg"
  unfolding getCommandMsg_returns by simp

text \<open>
  C6. Two argument lists that agree at index 1 and at index 2 (present and equal, or absent
  in both) give the same command.
\<close>

theorem getCommandMsg_depends_on_two_arguments:
  assumes "arg_at a 1 = arg_at b 1" and "arg_at a 2 = arg_at b 2"
  shows "getCommandMsg a = getCommandMsg b"
proof -
  have one: "(1 < length a) = (1 < length b)" "1 < length a \<Longrightarrow> a ! 1 = b ! 1"
    using assms(1) by (auto simp: arg_at_def split: if_splits)
  have two: "(2 < length a) = (2 < length b)" "2 < length a \<Longrightarrow> a ! 2 = b ! 2"
    using assms(2) by (auto simp: arg_at_def split: if_splits)
  show ?thesis
    unfolding getCommandMsg_returns using one two by auto
qed

theorem getCommandMsg_depends_on_two_arguments_witness:
  "arg_at [''prog'', ''2.5''] 1 = arg_at [''other'', ''2.5''] 1
   \<and> arg_at [''prog'', ''2.5''] 2 = arg_at [''other'', ''2.5''] 2
   \<and> getCommandMsg [''prog'', ''2.5''] = getCommandMsg [''other'', ''2.5'']
   \<and> arg_at [''prog'', ''10.0'', ''0.3''] 1 = arg_at ['''', ''10.0'', ''0.3'', ''9'', ''nan''] 1
   \<and> arg_at [''prog'', ''10.0'', ''0.3''] 2 = arg_at ['''', ''10.0'', ''0.3'', ''9'', ''nan''] 2
   \<and> getCommandMsg [''prog'', ''10.0'', ''0.3'']
       = getCommandMsg ['''', ''10.0'', ''0.3'', ''9'', ''nan'']"
proof -
  have h1: "arg_at [''prog'', ''2.5''] 1 = arg_at [''other'', ''2.5''] 1"
    and h2: "arg_at [''prog'', ''2.5''] 2 = arg_at [''other'', ''2.5''] 2"
    and h3: "arg_at [''prog'', ''10.0'', ''0.3''] 1 = arg_at ['''', ''10.0'', ''0.3'', ''9'', ''nan''] 1"
    and h4: "arg_at [''prog'', ''10.0'', ''0.3''] 2 = arg_at ['''', ''10.0'', ''0.3'', ''9'', ''nan''] 2"
    by (simp_all add: arg_at_def)
  show ?thesis
    using h1 h2 h3 h4 getCommandMsg_depends_on_two_arguments [OF h1 h2]
      getCommandMsg_depends_on_two_arguments [OF h3 h4]
    by simp
qed

text \<open>
  C9. Clamping twice is clamping once, for the bound of the linear speed and for the bound
  of the angular rate, whatever the value (a NaN stays a NaN).
\<close>

theorem clamp_idempotent:
  "std_min (std_max (std_min (std_max v (fp_neg MaxVelocityCommand)) MaxVelocityCommand)
      (fp_neg MaxVelocityCommand)) MaxVelocityCommand
     = std_min (std_max v (fp_neg MaxVelocityCommand)) MaxVelocityCommand
   \<and> std_min (std_max (std_min (std_max v (fp_neg MaxTurnRateCommand)) MaxTurnRateCommand)
      (fp_neg MaxTurnRateCommand)) MaxTurnRateCommand
     = std_min (std_max v (fp_neg MaxTurnRateCommand)) MaxTurnRateCommand"
  by (cases v) (simp_all add: std_min_def std_max_def MaxVelocityCommand_def MaxTurnRateCommand_def)



section \<open>Properties of the status handler and the publish loop\<close>

lemma step_frame:
  assumes "step c a c'"
  shows "cmdMsg c' = cmdMsg c"
    and "j5_cmd (io c') = j5_cmd (io c) @ (if a = Pub then [cmdMsg c] else [])"
  using assms
  by (induction rule: step.induct) (simp_all add: ROS_INFO_def publish_def statusMsgHandler_def)

lemma run_frame:
  assumes "run c as c'"
  shows "cmdMsg c' = cmdMsg c
    \<and> j5_cmd (io c') = j5_cmd (io c) @ replicate (length (filter (\<lambda>a. a = Pub) as)) (cmdMsg c)"
  using assms
proof (induction rule: run.induct)
  case (run_nil c)
  show ?case by simp
next
  case (run_cons c a c' as c'')
  from step_frame [OF run_cons.hyps(1)] run_cons.IH show ?case
    by simp
qed

text \<open>
  C7. A status message delivered while the loop runs appends exactly one record to the log,
  built from that message alone, and changes neither the command held by \<open>main\<close> nor what
  has been published nor the position of the loop.
\<close>

theorem statusMsgHandler_logs_once:
  assumes "step c (Deliver msg) c'"
  shows "pc c \<noteq> Stopped
    \<and> rosout (io c') = rosout (io c) @
        [(''RCV Status: EXT_CONTROL: %i FAULT: %i CONTACTORS: %i VOLTAGE: %.1f'',
          [ArgInt (of_bool (externalControl msg)), ArgInt (of_bool (fault msg)),
           ArgInt (of_bool (contactors msg)), ArgDouble (voltage msg)])]
    \<and> j5_cmd (io c') = j5_cmd (io c) \<and> cmdMsg c' = cmdMsg c \<and> pc c' = pc c"
  using assms
  by (cases rule: step.cases) (simp add: statusMsgHandler_def ROS_INFO_def)

theorem statusMsgHandler_logs_once_witness:
  "step \<lparr>pc = Sleep, cmdMsg = Twist_init, io = \<lparr>rosout = [], j5_cmd = [Twist_init]\<rparr>\<rparr>
     (Deliver \<lparr>externalControl = True, contactors = True, fault = False, voltage = Fin (241 / 5)\<rparr>)
     \<lparr>pc = Sleep, cmdMsg = Twist_init,
      io = \<lparr>rosout = [(''RCV Status: EXT_CONTROL: %i FAULT: %i CONTACTORS: %i VOLTAGE: %.1f'',
                       [ArgInt 1, ArgInt 0, ArgInt 1, ArgDouble (Fin (241 / 5))])],
            j5_cmd = [Twist_init]\<rparr>\<rparr>
   \<and> rosout (io \<lparr>pc = Sleep, cmdMsg = Twist_init,
      io = \<lparr>rosout = [(''RCV Status: EXT_CONTROL: %i FAULT: %i CONTACTORS: %i VOLTAGE: %.1f'',
                       [ArgInt 1, ArgInt 0, ArgInt 1, ArgDouble (Fin (241 / 5))])],
            j5_cmd = [Twist_init]\<rparr>\<rparr>)
     = [] @ [(''RCV Status: EXT_CONTROL: %i FAULT: %i CONTACTORS: %i VOLTAGE: %.1f'',
                       [ArgInt 1, ArgInt 0, ArgInt 1, ArgDouble (Fin (241 / 5))])]"
proof -
  let ?c = "\<lparr>pc = Sleep, cmdMsg = Twist_init, io = \<lparr>rosout = [], j5_cmd = [Twist_init]\<rparr>\<rparr>"
  let ?m = "\<lparr>externalControl = True, contactors = True, fault = False, voltage = Fin (241 / 5)\<rparr>"
  have "pc ?c \<noteq> Stopped"
    by simp
  then have "step ?c (Deliver ?m) (?c\<lparr>io := statusMsgHandler ?m (io ?c)\<rparr>)"
    by (rule step.deliver)
  then have s: "step ?c (Deliver ?m) \<lparr>pc = Sleep, cmdMsg = Twist_init,
      io = \<lparr>rosout = [(''RCV Status: EXT_CONTROL: %i FAULT: %i CONTACTORS: %i VOLTAGE: %.1f'',
                       [ArgInt 1, ArgInt 0, ArgInt 1, ArgDouble (Fin (241 / 5))])],
            j5_cmd = [Twist_init]\<rparr>\<rparr>"
    by (simp add: statusMsgHandler_def ROS_INFO_def)
  from s statusMsgHandler_logs_once [OF s] show ?thesis
    by simp
qed

text \<open>
  C8. The command is computed once, before the loop: in every state the loop reaches it is
  the value \<open>getCommandMsg\<close> returned for the arguments, and every message published so far
  is that value, one for each pass through the publish statement.
\<close>

theorem command_fixed_at_startup:
  assumes "main_start args = Inr c0" and "run c0 as c"
  shows "getCommandMsg args = Inr (cmdMsg c)
    \<and> j5_cmd (io c) = replicate (length (filter (\<lambda>a. a = Pub) as)) (cmdMsg c)
    \<and> (\<forall>m \<in> set (j5_cmd (io c)). getCommandMsg args = Inr m)"
proof -
  from assms(1) have start: "getCommandMsg args = Inr (cmdMsg c0)" "j5_cmd (io c0) = []"
    by (auto simp: main_start_def split: sum.splits)
  from run_frame [OF assms(2)] start show ?thesis
    by simp
qed

theorem command_fixed_at_startup_witness:
  "\<exists>c0 c. main_start [''prog'', ''2.5'', ''0.3''] = Inr c0
     \<and> run c0 [Ok True, Info, Pub, Wait, Ok True, Info, Pub] c
     \<and> j5_cmd (io c) =
         [Twist_init\<lparr>linear_x := Fin (5 / 2), angular_z := Fin (5033165 / 16777216)\<rparr>,
          Twist_init\<lparr>linear_x := Fin (5 / 2), angular_z := Fin (5033165 / 16777216)\<rparr>]
     \<and> getCommandMsg [''prog'', ''2.5'', ''0.3''] = Inr (cmdMsg c)"
proof -
  let ?args = "[''prog'', ''2.5'', ''0.3'']"
  let ?cmd = "Twist_init\<lparr>linear_x := Fin (5 / 2), angular_z := Fin (5033165 / 16777216)\<rparr>"
  have v: "stof ''2.5'' = Inr (Fin (5 / 2))"
    by code_simp
  have w: "stof ''0.3'' = Inr (Fin (5033165 / 16777216))"
    by code_simp
  have cmd: "getCommandMsg ?args = Inr ?cmd"
    unfolding getCommandMsg_returns
    by (simp add: v w std_min_def std_max_def MaxVelocityCommand_def MaxTurnRateCommand_def)
  define c0 where "c0 = \<lparr>pc = Check, cmdMsg = ?cmd, io = \<lparr>rosout = [], j5_cmd = []\<rparr>\<rparr>"
  have start: "main_start ?args = Inr c0"
    by (simp add: main_start_def cmd c0_def)
  have "\<exists>c. run c0 [Ok True, Info, Pub, Wait, Ok True, Info, Pub] c"
    unfolding c0_def
    apply (rule exI)
    apply (rule run_cons, rule step.ok_true, simp)
    apply (rule run_cons, rule step.info, simp)
    apply (rule run_cons, rule step.pub, simp)
    apply (rule run_cons, rule step.wait, simp)
    apply (rule run_cons, rule step.ok_true, simp)
    apply (rule run_cons, rule step.info, simp)
    apply (rule run_cons, rule step.pub, simp)
    apply (rule run_nil)
    done
  then obtain c where r: "run c0 [Ok True, Info, Pub, Wait, Ok True, Info, Pub] c"
    by blast
  from command_fixed_at_startup [OF start r] cmd have
    "j5_cmd (io c) = [?cmd, ?cmd]" "getCommandMsg ?args = Inr (cmdMsg c)"
    by (simp_all add: numeral_2_eq_2)
  with start r show ?thesis
    by blast
qed

end
